theory Spec2Isabelle
  imports Complex_Main "HOL-Library.Multiset"
begin

section \<open>JavaScript values\<close>

text \<open>
  The plugin is TypeScript. Reading a property of \<open>undefined\<close> raises a TypeError; it is
  the only exception the modelled code can raise, and it is a value of the model.
\<close>

datatype error = TypeError

text \<open>
  \<open>xs[i]\<close> on a JavaScript array: the element when \<open>0 \<le> i < xs.length\<close>, \<open>undefined\<close>
  otherwise (a negative index does not count from the end).
\<close>

definition js_index :: "'a list \<Rightarrow> int \<Rightarrow> 'a option" where
  "js_index xs i = (if 0 \<le> i \<and> i < int (length xs) then Some (xs ! nat i) else None)"

text \<open>
  A moment of the date library: a valid one holds its time value (milliseconds), an
  invalid one holds none. The library's comparisons are false when either side is invalid.
\<close>

datatype moment = Moment int | InvalidMoment

fun isValid :: "moment \<Rightarrow> bool" where
  "isValid (Moment t) = True"
| "isValid InvalidMoment = False"

fun isBefore :: "moment \<Rightarrow> moment \<Rightarrow> bool" where
  "isBefore (Moment a) (Moment b) = (a < b)"
| "isBefore _ _ = False"

fun isAfter :: "moment \<Rightarrow> moment \<Rightarrow> bool" where
  "isAfter (Moment a) (Moment b) = (a > b)"
| "isAfter _ _ = False"

fun isSame :: "moment \<Rightarrow> moment \<Rightarrow> bool" where
  "isSame (Moment a) (Moment b) = (a = b)"
| "isSame _ _ = False"

text \<open>
  The order of \<open><\<close> and \<open>>\<close> on JavaScript strings, by code units: negative when \<open>a\<close>
  comes first, zero when the strings are equal, positive otherwise.
\<close>

fun compare_units :: "string \<Rightarrow> string \<Rightarrow> int" where
  "compare_units [] [] = 0"
| "compare_units [] (y # ys) = -1"
| "compare_units (x # xs) [] = 1"
| "compare_units (x # xs) (y # ys) =
     (if of_char x < (of_char y :: nat) then -1
      else if of_char x > (of_char y :: nat) then 1
      else compare_units xs ys)"

text \<open>
  \<open>a.localeCompare(b)\<close>. The host's collation agrees with the code-unit order on the
  digit strings of the priority enumeration; on other text it may differ, and nothing
  below depends on it there.
\<close>

definition localeCompare :: "string \<Rightarrow> string \<Rightarrow> int" where
  "localeCompare a b = compare_units a b"

text \<open>String helpers: \<open>s.startsWith(p)\<close>, \<open>s.includes(p)\<close>, \<open>s.replace(p, '')\<close> for a
  string pattern (the first occurrence goes), \<open>s.trim()\<close> and \<open>s.toLocaleLowerCase()\<close>
  (on ASCII text).\<close>

definition starts_with :: "string \<Rightarrow> string \<Rightarrow> bool" where
  "starts_with p s = (take (length p) s = p)"

fun includes_str :: "string \<Rightarrow> string \<Rightarrow> bool" where
  "includes_str [] p = (p = [])"
| "includes_str (c # cs) p = (starts_with p (c # cs) \<or> includes_str cs p)"

fun remove_first :: "string \<Rightarrow> string \<Rightarrow> string" where
  "remove_first p [] = []"
| "remove_first p (c # cs) =
     (if starts_with p (c # cs) then drop (length p) (c # cs) else c # remove_first p cs)"

definition is_space :: "char \<Rightarrow> bool" where
  "is_space c = (c = CHR '' '' \<or> c = CHR 0x09 \<or> c = CHR 0x0A \<or> c = CHR 0x0B
                 \<or> c = CHR 0x0C \<or> c = CHR 0x0D)"

definition trim :: "string \<Rightarrow> string" where
  "trim s = rev (dropWhile is_space (rev (dropWhile is_space s)))"

definition lower_char :: "char \<Rightarrow> char" where
  "lower_char c =
     (if (65::nat) \<le> of_char c \<and> of_char c \<le> (90::nat)
      then char_of (of_char c + (32::nat)) else c)"

definition toLocaleLowerCase :: "string \<Rightarrow> string" where
  "toLocaleLowerCase s = map lower_char s"

section \<open>Task and TaskBlock\<close>

datatype Status = Todo | Done | Blocked | InProgress

datatype Priority = High | Medium | Low | NoPriority

text \<open>
  Modelled from the spec: the string values of the \<open>Priority\<close> enumeration (declared in
  Task.ts, which is not among the sources). The spec gives the ranking
  High > Medium > Low > None "compared lexicographically on the enumeration's string form";
  \<open>NoPriority\<close> stands for \<open>Priority.None\<close>.
\<close>

fun priority_string :: "Priority \<Rightarrow> string" where
  "priority_string High = ''1''"
| "priority_string Medium = ''2''"
| "priority_string Low = ''3''"
| "priority_string NoPriority = ''4''"

text \<open>The recurrence rule of a task; the modelled code only tests whether one is present.\<close>

type_synonym Recurrence = string

text \<open>
  The fields of a Task that Cache, Query and Sort read or write. \<open>urgency\<close> is a
  JavaScript number; only the sign of a difference of two urgencies is ever used, and
  that sign is the sign of the exact difference.
\<close>

record Task =
  status :: Status
  description :: string
  path :: string
  indentation :: string
  sectionStart :: int
  sectionIndex :: int
  precedingHeader :: "string option"
  priority :: Priority
  startDate :: "moment option"
  scheduledDate :: "moment option"
  dueDate :: "moment option"
  doneDate :: "moment option"
  recurrence :: "Recurrence option"
  urgency :: rat
  task_id :: int
  parent :: int

record TaskBlock =
  tasks :: "Task list"

text \<open>A task with nothing set, for stating concrete inputs.\<close>

definition plain_task :: "string \<Rightarrow> string \<Rightarrow> Task" where
  "plain_task p d =
     \<lparr> status = Todo, description = d, path = p, indentation = [],
       sectionStart = 0, sectionIndex = 0, precedingHeader = None,
       priority = NoPriority, startDate = None, scheduledDate = None,
       dueDate = None, doneDate = None, recurrence = None, urgency = 0,
       task_id = 0, parent = -1 \<rparr>"

section \<open>Cache: the index and its vault handlers\<close>

datatype State = Cold | Initializing | Warm

datatype TAbstractFile = TFile string | TFolder string

text \<open>
  The part of the Cache object the vault handlers touch: the index, the lifecycle state
  and, as \<open>published\<close>, what \<open>notifySubscribers\<close> has sent so far (latest last).
  A handler body runs under the mutex, so it is one atomic step.
\<close>

record Cache =
  state :: State
  taskblocks :: "TaskBlock list"
  published :: "(TaskBlock list \<times> State) list"

definition notifySubscribers :: "Cache \<Rightarrow> Cache" where
  "notifySubscribers c = c\<lparr>published := published c @ [(taskblocks c, state c)]\<rparr>"

text \<open>
  The predicate both the delete handler and \<open>indexFile\<close> pass to \<open>filter\<close>:
  \<open>tb.tasks.length > 0 ? tb.tasks[0].path !== file.path : false\<close>.
\<close>

definition keepBlock :: "string \<Rightarrow> TaskBlock \<Rightarrow> bool" where
  "keepBlock filePath taskBlock =
     (if length (tasks taskBlock) > 0 then path (tasks taskBlock ! 0) \<noteq> filePath else False)"

fun delete_handler :: "TAbstractFile \<Rightarrow> Cache \<Rightarrow> Cache" where
  "delete_handler (TFolder p) c = c"
| "delete_handler (TFile p) c =
     notifySubscribers (c\<lparr>taskblocks := filter (keepBlock p) (taskblocks c)\<rparr>)"

text \<open>
  The callback the rename handler maps over the index. The loop fills \<open>newTaskBlock\<close>
  with copies of the tasks under the new path; the callback then returns \<open>taskBlock\<close>.
\<close>

definition rename_block :: "string \<Rightarrow> string \<Rightarrow> TaskBlock \<Rightarrow> TaskBlock" where
  "rename_block filePath oldPath taskBlock =
     (if length (tasks taskBlock) > 0 \<and> path (tasks taskBlock ! 0) = oldPath
      then (let newTaskBlock =
                  foldl (\<lambda>nb task. nb\<lparr>tasks := tasks nb @ [task\<lparr>path := filePath\<rparr>]\<rparr>)
                        \<lparr>tasks = []\<rparr> (tasks taskBlock)
            in taskBlock)
      else taskBlock)"

fun rename_handler :: "TAbstractFile \<Rightarrow> string \<Rightarrow> Cache \<Rightarrow> Cache" where
  "rename_handler (TFolder p) oldPath c = c"
| "rename_handler (TFile p) oldPath c =
     notifySubscribers (c\<lparr>taskblocks := map (rename_block p oldPath) (taskblocks c)\<rparr>)"

subsection \<open>indexFile\<close>

text \<open>
  What the host's metadata cache gives for a document: the list items (with the
  checkbox character when the item is a checklist item, the line of the parent item or
  a negative number, and the lines the item spans) and the sections.
\<close>

record Pos =
  start_line :: int
  end_line :: int

record ListItemCache =
  li_task :: "string option"
  li_parent :: int
  li_position :: Pos

record SectionCache =
  sec_type :: string
  sec_position :: Pos

record CachedMetadata =
  listItems :: "ListItemCache list option"
  sections :: "SectionCache list option"

text \<open>\<open>fileContent.split('\n')\<close>.\<close>

fun split_nl :: "string \<Rightarrow> string list" where
  "split_nl [] = [[]]"
| "split_nl (c # cs) =
     (if c = CHR 0x0A then [] # split_nl cs
      else (case split_nl cs of [] \<Rightarrow> [[c]] | l # ls \<Rightarrow> (c # l) # ls))"

text \<open>The text a regular expression's \<open>(.*)\<close> takes: up to the first line terminator.\<close>

definition dot_star :: "string \<Rightarrow> string" where
  "dot_star s = takeWhile (\<lambda>c. c \<noteq> CHR 0x0A \<and> c \<noteq> CHR 0x0D) s"

definition getSection :: "int \<Rightarrow> SectionCache list option \<Rightarrow> SectionCache option" where
  "getSection lineNumberTask secs =
     (case secs of
        None \<Rightarrow> None
      | Some ss \<Rightarrow>
          find (\<lambda>section. sec_type section = ''list''
                  \<and> start_line (sec_position section) \<le> lineNumberTask
                  \<and> end_line (sec_position section) \<ge> lineNumberTask) ss)"

text \<open>The loop of \<open>getPrecedingHeader\<close>, with its \<open>break\<close>.\<close>

fun precedingHeaderSection ::
  "int \<Rightarrow> SectionCache list \<Rightarrow> SectionCache option \<Rightarrow> SectionCache option" where
  "precedingHeaderSection lineNumberTask [] found = found"
| "precedingHeaderSection lineNumberTask (section # ss) found =
     (if sec_type section = ''heading''
      then (if start_line (sec_position section) > lineNumberTask then found
            else precedingHeaderSection lineNumberTask ss (Some section))
      else precedingHeaderSection lineNumberTask ss found)"

text \<open>\<open>line.match(/^#+ +(.*)/u)\<close>: the first group, or \<open>None\<close> for no match.\<close>

definition headerMatch :: "string \<Rightarrow> string option" where
  "headerMatch l =
     (let afterHashes = dropWhile (\<lambda>c. c = CHR ''#'') l;
          afterSpaces = dropWhile (\<lambda>c. c = CHR '' '') afterHashes
      in if length afterHashes < length l \<and> length afterSpaces < length afterHashes
         then Some (dot_star afterSpaces) else None)"

definition getPrecedingHeader ::
  "int \<Rightarrow> SectionCache list option \<Rightarrow> string list \<Rightarrow> error + string option" where
  "getPrecedingHeader lineNumberTask secs fileLines =
     (case secs of
        None \<Rightarrow> Inr None
      | Some ss \<Rightarrow>
          (case precedingHeaderSection lineNumberTask ss None of
             None \<Rightarrow> Inr None
           | Some hs \<Rightarrow>
               (case js_index fileLines (start_line (sec_position hs)) of
                  None \<Rightarrow> Inl TypeError
                | Some linePrecedingHeader \<Rightarrow> Inr (headerMatch linePrecedingHeader))))"

text \<open>
  The argument of \<open>Task.fromLine\<close>. \<open>Task.fromLine\<close> itself is declared in Task.ts, which
  is not among the sources: \<open>indexFile\<close> takes it as a parameter, a function that
  raises, returns \<open>null\<close> (\<open>None\<close>) or returns a Task.
\<close>

record FromLineArgs =
  fl_line :: "string option"
  fl_path :: string
  fl_sectionStart :: int
  fl_sectionIndex :: int
  fl_precedingHeader :: "string option"
  fl_id :: int
  fl_parent :: int

type_synonym fromLine_fn = "FromLineArgs \<Rightarrow> error + Task option"

text \<open>
  The local variables of the scan. \<open>this.taskblocks.push(newTaskBlock)\<close> stores a
  reference, and the block may still grow afterwards, so the TaskBlock objects this call
  creates live in a store (\<open>blocks\<close>, indexed by reference); \<open>pushed\<close> lists the
  references appended to the index, in order, and \<open>newTaskBlock\<close> is the reference of
  the block being accumulated.
\<close>

record Scan =
  pushed :: "nat list"
  blocks :: "Task list list"
  newTaskBlock :: nat
  currentSection :: "SectionCache option"
  sectionIndex_var :: int
  currentID :: int
  first :: bool

definition initial_scan :: Scan where
  "initial_scan =
     \<lparr> pushed = [], blocks = [[]], newTaskBlock = 0, currentSection = None,
       sectionIndex_var = 0, currentID = 0, first = True \<rparr>"

text \<open>
  One iteration of the loop over \<open>listItems\<close>; \<open>isLast\<close> is
  \<open>listItem == listItems[listItems.length - 1]\<close>.
\<close>

definition indexFile_item ::
  "fromLine_fn \<Rightarrow> string \<Rightarrow> SectionCache list option \<Rightarrow> string list \<Rightarrow> bool
     \<Rightarrow> ListItemCache \<Rightarrow> Scan \<Rightarrow> error + Scan" where
  "indexFile_item fromLine filePath secs fileLines isLast listItem s =
     (if li_task listItem = None then Inr s
      else
        let lineNo = start_line (li_position listItem);
            s1 = (if (case currentSection s of
                        None \<Rightarrow> True
                      | Some cs \<Rightarrow> end_line (sec_position cs) < lineNo)
                  then s\<lparr>currentSection := getSection lineNo secs, currentID := 0,
                         sectionIndex_var := 0, first := True\<rparr>
                  else s)
        in case currentSection s1 of
             None \<Rightarrow> Inr (s1\<lparr>pushed := pushed s1 @ [newTaskBlock s1]\<rparr>)
           | Some cs \<Rightarrow>
               (case getPrecedingHeader lineNo secs fileLines of
                  Inl e \<Rightarrow> Inl e
                | Inr header \<Rightarrow>
                    (case fromLine \<lparr> fl_line = js_index fileLines lineNo, fl_path = filePath,
                                     fl_sectionStart = start_line (sec_position cs),
                                     fl_sectionIndex = sectionIndex_var s1,
                                     fl_precedingHeader = header, fl_id = currentID s1,
                                     fl_parent = li_parent listItem \<rparr> of
                       Inl e \<Rightarrow> Inl e
                     | Inr parsed \<Rightarrow>
                         let s2 =
                           (case parsed of
                              None \<Rightarrow> s1
                            | Some task \<Rightarrow>
                                let s3 = s1\<lparr>sectionIndex_var := sectionIndex_var s1 + 1\<rparr>;
                                    s4 = (if li_parent listItem = -1 \<and> \<not> first s3
                                          then s3\<lparr>pushed := pushed s3 @ [newTaskBlock s3],
                                                  newTaskBlock := length (blocks s3),
                                                  blocks := blocks s3 @ [[task]]\<rparr>
                                          else s3\<lparr>blocks := (blocks s3)
                                                    [newTaskBlock s3 :=
                                                       blocks s3 ! newTaskBlock s3 @ [task]]\<rparr>)
                                in if isLast then s4\<lparr>pushed := pushed s4 @ [newTaskBlock s4]\<rparr>
                                   else s4)
                         in Inr (s2\<lparr>first := False, currentID := currentID s2 + 1\<rparr>))))"

text \<open>
  The loop. An exception ends the call; what was pushed before the failing item stays.
\<close>

fun indexFile_loop ::
  "fromLine_fn \<Rightarrow> string \<Rightarrow> SectionCache list option \<Rightarrow> string list
     \<Rightarrow> ListItemCache list \<Rightarrow> Scan \<Rightarrow> Scan \<times> error option" where
  "indexFile_loop fromLine filePath secs fileLines [] s = (s, None)"
| "indexFile_loop fromLine filePath secs fileLines (listItem # rest) s =
     (case indexFile_item fromLine filePath secs fileLines (rest = []) listItem s of
        Inl e \<Rightarrow> (s, Some e)
      | Inr s' \<Rightarrow> indexFile_loop fromLine filePath secs fileLines rest s')"

text \<open>The removal step of \<open>indexFile\<close>: the blocks of the document leave the index.\<close>

definition indexFile_remove :: "string \<Rightarrow> TaskBlock list \<Rightarrow> TaskBlock list" where
  "indexFile_remove filePath tbs = filter (keepBlock filePath) tbs"

text \<open>
  \<open>indexFile\<close> from the point where the document's text has been read: \<open>fileCache\<close> is
  what \<open>getFileCache(file)\<close> returned and \<open>fileContent\<close> what \<open>cachedRead(file)\<close>
  returned. The second component is the exception the call ended with, if any.
\<close>

definition indexFile ::
  "fromLine_fn \<Rightarrow> string \<Rightarrow> CachedMetadata option \<Rightarrow> string \<Rightarrow> Cache
     \<Rightarrow> Cache \<times> error option" where
  "indexFile fromLine filePath fileCache fileContent c =
     (case fileCache of
        None \<Rightarrow> (c, None)
      | Some fc \<Rightarrow>
          let items = (case listItems fc of None \<Rightarrow> [] | Some l \<Rightarrow> l);
              fileLines = split_nl fileContent;
              kept = indexFile_remove filePath (taskblocks c);
              (s, thrown) =
                 indexFile_loop fromLine filePath (sections fc) fileLines items initial_scan;
              c' = c\<lparr>taskblocks := kept @ map (\<lambda>r. \<lparr>tasks = blocks s ! r\<rparr>) (pushed s)\<rparr>
          in (case thrown of
                None \<Rightarrow> (notifySubscribers c', None)
              | Some e \<Rightarrow> (c', Some e)))"

section \<open>Sort\<close>

text \<open>
  \<open>Array.prototype.sort\<close> with a comparator. ECMAScript requires the sort to be stable
  and leaves the algorithm to the engine; for a comparator that is a consistent ordering
  every engine returns the stably sorted array, which is what this insertion sort
  computes (each element goes behind the elements before it that do not compare greater).
  \<open>js_sort\<close> is for comparators that cannot raise, \<open>js_sortE\<close> for those that can: the
  first exception ends the sort.
\<close>

fun insert_sorted :: "('a \<Rightarrow> 'a \<Rightarrow> rat) \<Rightarrow> 'a \<Rightarrow> 'a list \<Rightarrow> 'a list" where
  "insert_sorted cmp x [] = [x]"
| "insert_sorted cmp x (y # ys) =
     (if cmp y x > 0 then x # y # ys else y # insert_sorted cmp x ys)"

definition js_sort :: "('a \<Rightarrow> 'a \<Rightarrow> rat) \<Rightarrow> 'a list \<Rightarrow> 'a list" where
  "js_sort cmp xs = foldl (\<lambda>acc x. insert_sorted cmp x acc) [] xs"




type_synonym Comparator = "TaskBlock \<Rightarrow> TaskBlock \<Rightarrow> error + rat"



text \<open>
  Reading a field of the element a_t index \<open>i\<close> of both sorted task arrays and combining
  the two: a TypeError when either element is \<open>undefined\<close>.
\<close>

definition both_at :: "Task list \<Rightarrow> Task list \<Rightarrow> int \<Rightarrow> (Task \<Rightarrow> Task \<Rightarrow> rat) \<Rightarrow> error + rat" where
  "both_at a_sorted b_sorted i f =
     (case js_index a_sorted i of
        None \<Rightarrow> Inl TypeError
      | Some a_t \<Rightarrow>
          (case js_index b_sorted i of
             None \<Rightarrow> Inl TypeError
           | Some b_t \<Rightarrow> Inr (f a_t b_t)))"




definition compareByPriority :: Comparator where
  "compareByPriority a b =
     (let compareTask =
            (\<lambda>a_t b_t. of_int (localeCompare (priority_string (priority a_t))
                                             (priority_string (priority b_t))))
      in both_at (js_sort compareTask (tasks a)) (js_sort compareTask (tasks b)) 0
           compareTask)"

fun compareByDate :: "moment option \<Rightarrow> moment option \<Rightarrow> rat" where
  "compareByDate (Some a) None = -1"
| "compareByDate None (Some b) = 1"
| "compareByDate (Some a) (Some b) =
     (if isAfter a b then 1 else if isBefore a b then -1 else 0)"
| "compareByDate None None = 0"




text \<open>\<open>compareByDoneDate\<close> reads \<open>a_sorted[-1]\<close> and \<open>b_sorted[-1]\<close>.\<close>

definition compareByDoneDate :: Comparator where
  "compareByDoneDate a b =
     (let compareTask = (\<lambda>a_t b_t. compareByDate (doneDate a_t) (doneDate b_t))
      in both_at (js_sort compareTask (tasks a)) (js_sort compareTask (tasks b)) (-1)
           (\<lambda>a_t b_t. compareByDate (doneDate a_t) (doneDate b_t)))"










datatype SortingProperty =
  By_urgency | By_status | By_priority | By_start | By_scheduled | By_due | By_done
  | By_path | By_description

record Sorting =
  property :: SortingProperty
  reverse :: bool






section \<open>Query\<close>

text \<open>
  A compiled filter: a predicate over a TaskBlock that may raise. \<open>every\<close> and \<open>some\<close> of
  JavaScript arrays are \<open>list_all\<close> and \<open>list_ex\<close>.
\<close>

type_synonym Filter = "TaskBlock \<Rightarrow> error + bool"

text \<open>
  The display flags \<open>parseHideOptions\<close> and the \<open>short\<close> line set. (The class is declared
  in LayoutOptions.ts, which is not among the sources; its flags start unset.)
\<close>

record LayoutOptions =
  hideTaskCount :: bool
  hideBacklinks :: bool
  hidePriority :: bool
  hideStartDate :: bool
  hideScheduledDate :: bool
  hideDueDate :: bool
  hideDoneDate :: bool
  hideRecurrenceRule :: bool
  hideEditButton :: bool
  shortMode :: bool

record Query =
  q_limit :: "nat option"
  q_layoutOptions :: LayoutOptions
  q_filters :: "Filter list"
  q_error :: "string option"
  q_sorting :: "Sorting list"

definition new_Query :: Query where
  "new_Query =
     \<lparr> q_limit = None,
       q_layoutOptions =
         \<lparr> hideTaskCount = False, hideBacklinks = False, hidePriority = False,
           hideStartDate = False, hideScheduledDate = False, hideDueDate = False,
           hideDoneDate = False, hideRecurrenceRule = False, hideEditButton = False,
           shortMode = False \<rparr>,
       q_filters = [], q_error = None, q_sorting = [] \<rparr>"

subsection \<open>The regular expressions\<close>

text \<open>
  \<open>/^KEYWORD (before|after|on)? ?(.*)/\<close> for the keywords \<open>happens\<close>, \<open>starts\<close>,
  \<open>scheduled\<close>, \<open>due\<close> and \<open>done\<close>: the optional qualifier (group 1) and the date text
  (group 2), or \<open>None\<close> when the line does not match. Everything behind the keyword
  always matches, so the greedy choices stand.
\<close>

definition dateRegexp :: "string \<Rightarrow> string \<Rightarrow> (string option \<times> string) option" where
  "dateRegexp keyword line =
     (if starts_with (keyword @ '' '') line
      then let r = drop (length keyword + 1) line;
               (qualifier, r1) =
                  (if starts_with ''before'' r then (Some ''before'', drop 6 r)
                   else if starts_with ''after'' r then (Some ''after'', drop 5 r)
                   else if starts_with ''on'' r then (Some ''on'', drop 2 r)
                   else (None, r));
               r2 = (if starts_with '' '' r1 then drop 1 r1 else r1)
           in Some (qualifier, dot_star r2)
      else None)"

text \<open>
  \<open>/^priority (is )?(above|below)? ?(low|none|medium|high)/\<close>: groups 2 and 3. Each
  optional part is tried taken first and given back when the rest does not match.
\<close>

definition priorityWord :: "string \<Rightarrow> string option" where
  "priorityWord r = find (\<lambda>w. starts_with w r) [''low'', ''none'', ''medium'', ''high'']"

definition spacePriorityWord :: "string \<Rightarrow> string option" where
  "spacePriorityWord r =
     (case (if starts_with '' '' r then priorityWord (drop 1 r) else None) of
        Some w \<Rightarrow> Some w
      | None \<Rightarrow> priorityWord r)"

definition qualifiedPriorityWord :: "string \<Rightarrow> (string option \<times> string) option" where
  "qualifiedPriorityWord r =
     (case (if starts_with ''above'' r
            then map_option (Pair (Some ''above'')) (spacePriorityWord (drop 5 r))
            else if starts_with ''below'' r
            then map_option (Pair (Some ''below'')) (spacePriorityWord (drop 5 r))
            else None) of
        Some m \<Rightarrow> Some m
      | None \<Rightarrow> map_option (Pair None) (spacePriorityWord r))"

definition priorityRegexp :: "string \<Rightarrow> (string option \<times> string) option" where
  "priorityRegexp line =
     (if starts_with ''priority '' line
      then let r = drop 9 line
           in (case (if starts_with ''is '' r then qualifiedPriorityWord (drop 3 r) else None) of
                 Some m \<Rightarrow> Some m
               | None \<Rightarrow> qualifiedPriorityWord r)
      else None)"

text \<open>\<open>/^KEYWORD (includes|does not include) (.*)/\<close> for \<open>path\<close>, \<open>description\<close> and
  \<open>heading\<close>: groups 1 and 2.\<close>

definition includesRegexp :: "string \<Rightarrow> string \<Rightarrow> (string \<times> string) option" where
  "includesRegexp keyword line =
     (if starts_with (keyword @ '' '') line
      then let r = drop (length keyword + 1) line
           in if starts_with ''includes '' r then Some (''includes'', dot_star (drop 9 r))
              else if starts_with ''does not include '' r
              then Some (''does not include'', dot_star (drop 17 r))
              else None
      else None)"

text \<open>\<open>/^sort by (urgency|status|...|description)( reverse)?/\<close>: groups 1 and 2.\<close>

definition sortByRegexp :: "string \<Rightarrow> (string \<times> string option) option" where
  "sortByRegexp line =
     (if starts_with ''sort by '' line
      then let r = drop 8 line
           in (case find (\<lambda>w. starts_with w r)
                     [''urgency'', ''status'', ''priority'', ''start'', ''scheduled'',
                      ''due'', ''done'', ''path'', ''description''] of
                 None \<Rightarrow> None
               | Some w \<Rightarrow>
                   Some (w, if starts_with '' reverse'' (drop (length w) r)
                            then Some '' reverse'' else None))
      else None)"

text \<open>The cast \<open>fieldMatch[1] as SortingProperty\<close>, on the nine names the expression admits.\<close>

definition sortingProperty :: "string \<Rightarrow> SortingProperty option" where
  "sortingProperty w =
     map_of [(''urgency'', By_urgency), (''status'', By_status), (''priority'', By_priority),
             (''start'', By_start), (''scheduled'', By_scheduled), (''due'', By_due),
             (''done'', By_done), (''path'', By_path), (''description'', By_description)] w"

text \<open>\<open>/^hide (task count|backlink|...|edit button)/\<close>: group 1.\<close>

definition hideOptionsRegexp :: "string \<Rightarrow> string option" where
  "hideOptionsRegexp line =
     (if starts_with ''hide '' line
      then find (\<lambda>w. starts_with w (drop 5 line))
             [''task count'', ''backlink'', ''priority'', ''start date'', ''scheduled date'',
              ''done date'', ''due date'', ''recurrence rule'', ''edit button'']
      else None)"

text \<open>\<open>/^limit (to )?(\d+)( tasks?)?/\<close>: group 2, the digits.\<close>

definition is_digit :: "char \<Rightarrow> bool" where
  "is_digit c = ((48::nat) \<le> of_char c \<and> of_char c \<le> (57::nat))"

definition limitRegexp :: "string \<Rightarrow> string option" where
  "limitRegexp line =
     (if starts_with ''limit '' line
      then let r = drop 6 line;
               taken = (if starts_with ''to '' r then takeWhile is_digit (drop 3 r) else []);
               digits = (if taken \<noteq> [] then taken else takeWhile is_digit r)
           in if digits \<noteq> [] then Some digits else None
      else None)"

text \<open>\<open>Number.parseInt(digits, 10)\<close> on a string of digits, as the exact number (the
  code's double is exact up to \<open>2^53\<close> and rounded above).\<close>

definition parseInt :: "string \<Rightarrow> nat" where
  "parseInt digits = foldl (\<lambda>n c. 10 * n + (of_char c - 48)) 0 digits"

subsection \<open>The compiled filters\<close>

text \<open>\<open>f(tb.tasks[0])\<close>: a TypeError when the block has no task.\<close>

definition on_first_task :: "TaskBlock \<Rightarrow> (Task \<Rightarrow> bool) \<Rightarrow> error + bool" where
  "on_first_task tb f =
     (case js_index (tasks tb) 0 of None \<Rightarrow> Inl TypeError | Some task \<Rightarrow> Inr (f task))"

definition doneFilter :: Filter where
  "doneFilter tb = Inr (list_all (\<lambda>task. status task = Done) (tasks tb))"

definition notDoneFilter :: Filter where
  "notDoneFilter tb = Inr (list_ex (\<lambda>task. status task \<noteq> Done) (tasks tb))"

definition recurringFilter :: Filter where
  "recurringFilter tb =
     (if length (tasks tb) > 0 then on_first_task tb (\<lambda>task. recurrence task \<noteq> None)
      else Inr False)"

definition notRecurringFilter :: Filter where
  "notRecurringFilter tb =
     (if length (tasks tb) > 0 then on_first_task tb (\<lambda>task. recurrence task = None)
      else Inr False)"

definition excludeSubItemsFilter :: Filter where
  "excludeSubItemsFilter tb =
     (if length (tasks tb) > 0 then on_first_task tb (\<lambda>task. indentation task = '''')
      else Inr False)"

definition noStartFilter :: Filter where
  "noStartFilter tb = Inr (list_all (\<lambda>task. startDate task \<noteq> None) (tasks tb))"

definition noScheduledFilter :: Filter where
  "noScheduledFilter tb = Inr (list_all (\<lambda>task. scheduledDate task \<noteq> None) (tasks tb))"

definition noDueFilter :: Filter where
  "noDueFilter tb = Inr (list_all (\<lambda>task. dueDate task \<noteq> None) (tasks tb))"

text \<open>
  The test both the \<open>above\<close> and the \<open>below\<close> filter apply to a task:
  \<open>task.priority ? task.priority.localeCompare(filterPriority) < 0 : false\<close>
  (a string is truthy when it is not empty).
\<close>

definition priorityBefore :: "Priority \<Rightarrow> Task \<Rightarrow> bool" where
  "priorityBefore filterPriority task =
     (if priority_string (priority task) \<noteq> ''''
      then localeCompare (priority_string (priority task)) (priority_string filterPriority) < 0
      else False)"

definition priorityFilter :: "string option \<Rightarrow> Priority \<Rightarrow> Filter" where
  "priorityFilter qualifier filterPriority =
     (if qualifier = Some ''above''
      then (\<lambda>tb. Inr (list_ex (priorityBefore filterPriority) (tasks tb)))
      else if qualifier = Some ''below''
      then (\<lambda>tb. Inr (\<not> list_ex (priorityBefore filterPriority) (tasks tb)))
      else (\<lambda>tb. Inr (list_all
              (\<lambda>task. if priority_string (priority task) \<noteq> ''''
                       then (priority_string (priority task) = priority_string filterPriority
                             \<or> localeCompare (priority_string (priority task))
                                  (priority_string filterPriority) < 0)
                       else False)
              (tasks tb))))"

text \<open>The dates \<open>[start, scheduled, due]\<close> of all tasks of a block, flattened.\<close>

definition happensDates :: "TaskBlock \<Rightarrow> moment option list" where
  "happensDates tb =
     concat (map (\<lambda>task. [startDate task, scheduledDate task, dueDate task]) (tasks tb))"

definition happensFilter :: "string option \<Rightarrow> moment \<Rightarrow> Filter" where
  "happensFilter qualifier filterDate =
     (if qualifier = Some ''before''
      then (\<lambda>tb. Inr (list_ex (\<lambda>date. case date of None \<Rightarrow> False
                                        | Some d \<Rightarrow> isBefore d filterDate) (happensDates tb)))
      else if qualifier = Some ''after''
      then (\<lambda>tb. Inr (list_ex (\<lambda>date. case date of None \<Rightarrow> False
                                        | Some d \<Rightarrow> isAfter d filterDate) (happensDates tb)))
      else (\<lambda>tb. Inr (list_ex (\<lambda>date. case date of None \<Rightarrow> False
                                        | Some d \<Rightarrow> isSame d filterDate) (happensDates tb))))"

definition startFilter :: "string option \<Rightarrow> moment \<Rightarrow> Filter" where
  "startFilter qualifier filterDate =
     (if qualifier = Some ''before''
      then (\<lambda>tb. Inr (list_ex (\<lambda>task. case startDate task of
                                 Some d \<Rightarrow> isBefore d filterDate | None \<Rightarrow> True) (tasks tb)))
      else if qualifier = Some ''after''
      then (\<lambda>tb. Inr (list_ex (\<lambda>task. case startDate task of
                                 Some d \<Rightarrow> isAfter d filterDate | None \<Rightarrow> True) (tasks tb)))
      else (\<lambda>tb. Inr (list_ex (\<lambda>task. case startDate task of
                                 Some d \<Rightarrow> isSame d filterDate | None \<Rightarrow> True) (tasks tb))))"

definition scheduledFilter :: "string option \<Rightarrow> moment \<Rightarrow> Filter" where
  "scheduledFilter qualifier filterDate =
     (if qualifier = Some ''before''
      then (\<lambda>tb. Inr (list_ex (\<lambda>task. case scheduledDate task of
                                 Some d \<Rightarrow> isBefore d filterDate | None \<Rightarrow> False) (tasks tb)))
      else if qualifier = Some ''after''
      then (\<lambda>tb. Inr (list_ex (\<lambda>task. case scheduledDate task of
                                 Some d \<Rightarrow> isAfter d filterDate | None \<Rightarrow> False) (tasks tb)))
      else (\<lambda>tb. Inr (list_ex (\<lambda>task. case scheduledDate task of
                                 Some d \<Rightarrow> isSame d filterDate | None \<Rightarrow> False) (tasks tb))))"

definition dueFilter :: "string option \<Rightarrow> moment \<Rightarrow> Filter" where
  "dueFilter qualifier filterDate =
     (if qualifier = Some ''before''
      then (\<lambda>tb. Inr (list_ex (\<lambda>task. case dueDate task of
                                 Some d \<Rightarrow> isBefore d filterDate | None \<Rightarrow> False) (tasks tb)))
      else if qualifier = Some ''after''
      then (\<lambda>tb. Inr (list_ex (\<lambda>task. case dueDate task of
                                 Some d \<Rightarrow> isAfter d filterDate | None \<Rightarrow> False) (tasks tb)))
      else (\<lambda>tb. Inr (list_ex (\<lambda>task. case dueDate task of
                                 Some d \<Rightarrow> isSame d filterDate | None \<Rightarrow> False) (tasks tb))))"

definition doneDateFilter :: "string option \<Rightarrow> moment \<Rightarrow> Filter" where
  "doneDateFilter qualifier filterDate =
     (if qualifier = Some ''before''
      then (\<lambda>tb. Inr (list_all (\<lambda>task. case doneDate task of
                                 Some d \<Rightarrow> isBefore d filterDate | None \<Rightarrow> False) (tasks tb)))
      else if qualifier = Some ''after''
      then (\<lambda>tb. Inr (list_all (\<lambda>task. case doneDate task of
                                 Some d \<Rightarrow> isAfter d filterDate | None \<Rightarrow> False) (tasks tb)))
      else (\<lambda>tb. Inr (list_all (\<lambda>task. case doneDate task of
                                 Some d \<Rightarrow> isSame d filterDate | None \<Rightarrow> False) (tasks tb))))"

definition stringIncludesCaseInsensitive :: "string \<Rightarrow> string \<Rightarrow> bool" where
  "stringIncludesCaseInsensitive haystack needle =
     includes_str (toLocaleLowerCase haystack) (toLocaleLowerCase needle)"

definition pathIncludesFilter :: "string \<Rightarrow> Filter" where
  "pathIncludesFilter needle tb =
     (if length (tasks tb) > 0
      then on_first_task tb (\<lambda>task. stringIncludesCaseInsensitive (path task) needle)
      else Inr False)"

definition pathDoesNotIncludeFilter :: "string \<Rightarrow> Filter" where
  "pathDoesNotIncludeFilter needle tb =
     on_first_task tb (\<lambda>task. \<not> stringIncludesCaseInsensitive (path task) needle)"

definition descriptionIncludesFilter :: "string \<Rightarrow> string \<Rightarrow> Filter" where
  "descriptionIncludesFilter globalFilter needle tb =
     Inr (list_ex (\<lambda>task. stringIncludesCaseInsensitive
                             (trim (remove_first globalFilter (description task))) needle)
            (tasks tb))"

definition descriptionDoesNotIncludeFilter :: "string \<Rightarrow> string \<Rightarrow> Filter" where
  "descriptionDoesNotIncludeFilter globalFilter needle tb =
     Inr (\<not> list_ex (\<lambda>task. stringIncludesCaseInsensitive
                               (trim (remove_first globalFilter (description task))) needle)
              (tasks tb))"

definition headingIncludesFilter :: "string \<Rightarrow> Filter" where
  "headingIncludesFilter needle tb =
     Inr (list_ex (\<lambda>task. case precedingHeader task of
                             None \<Rightarrow> False
                           | Some header \<Rightarrow> stringIncludesCaseInsensitive header needle)
            (tasks tb))"

definition headingDoesNotIncludeFilter :: "string \<Rightarrow> Filter" where
  "headingDoesNotIncludeFilter needle tb =
     Inr (\<not> list_ex (\<lambda>task. case precedingHeader task of
                               None \<Rightarrow> False
                             | Some header \<Rightarrow> stringIncludesCaseInsensitive header needle)
              (tasks tb))"

subsection \<open>The parse functions and the constructor\<close>

text \<open>
  \<open>parseDate\<close> is \<open>window.moment(chrono.parseDate(input)).startOf('day')\<close>: the parser of
  an external library followed by the date library; the parse functions take it as a
  parameter. \<open>globalFilter\<close> is \<open>getSettings().globalFilter\<close>.
\<close>

definition parseHideOptions :: "string \<Rightarrow> Query \<Rightarrow> Query" where
  "parseHideOptions line q =
     (case hideOptionsRegexp line of
        None \<Rightarrow> q
      | Some g \<Rightarrow>
          let option = toLocaleLowerCase (trim g); lo = q_layoutOptions q
          in if option = ''task count'' then q\<lparr>q_layoutOptions := lo\<lparr>hideTaskCount := True\<rparr>\<rparr>
             else if option = ''backlink'' then q\<lparr>q_layoutOptions := lo\<lparr>hideBacklinks := True\<rparr>\<rparr>
             else if option = ''priority'' then q\<lparr>q_layoutOptions := lo\<lparr>hidePriority := True\<rparr>\<rparr>
             else if option = ''start date''
             then q\<lparr>q_layoutOptions := lo\<lparr>hideStartDate := True\<rparr>\<rparr>
             else if option = ''scheduled date''
             then q\<lparr>q_layoutOptions := lo\<lparr>hideScheduledDate := True\<rparr>\<rparr>
             else if option = ''due date'' then q\<lparr>q_layoutOptions := lo\<lparr>hideDueDate := True\<rparr>\<rparr>
             else if option = ''done date'' then q\<lparr>q_layoutOptions := lo\<lparr>hideDoneDate := True\<rparr>\<rparr>
             else if option = ''recurrence rule''
             then q\<lparr>q_layoutOptions := lo\<lparr>hideRecurrenceRule := True\<rparr>\<rparr>
             else if option = ''edit button''
             then q\<lparr>q_layoutOptions := lo\<lparr>hideEditButton := True\<rparr>\<rparr>
             else q\<lparr>q_error := Some ''do not understand hide option''\<rparr>)"

definition parsePriorityFilter :: "string \<Rightarrow> Query \<Rightarrow> Query" where
  "parsePriorityFilter line q =
     (case priorityRegexp line of
        Some (qualifier, filterPriorityString) \<Rightarrow>
          let filterPriority =
                (if filterPriorityString = ''low'' then Some Low
                 else if filterPriorityString = ''none'' then Some NoPriority
                 else if filterPriorityString = ''medium'' then Some Medium
                 else if filterPriorityString = ''high'' then Some High
                 else None)
          in (case filterPriority of
                None \<Rightarrow> q\<lparr>q_error := Some ''do not understand priority''\<rparr>
              | Some p \<Rightarrow> q\<lparr>q_filters := q_filters q @ [priorityFilter qualifier p]\<rparr>)
      | None \<Rightarrow> q\<lparr>q_error := Some ''do not understand query filter (priority date)''\<rparr>)"

definition parseHappensFilter :: "(string \<Rightarrow> moment) \<Rightarrow> string \<Rightarrow> Query \<Rightarrow> Query" where
  "parseHappensFilter parseDate line q =
     (case dateRegexp ''happens'' line of
        Some (qualifier, dateText) \<Rightarrow>
          let filterDate = parseDate dateText
          in if \<not> isValid filterDate
             then q\<lparr>q_error := Some ''do not understand happens date''\<rparr>
             else q\<lparr>q_filters := q_filters q @ [happensFilter qualifier filterDate]\<rparr>
      | None \<Rightarrow> q\<lparr>q_error := Some ''do not understand query filter (happens date)''\<rparr>)"

definition parseStartFilter :: "(string \<Rightarrow> moment) \<Rightarrow> string \<Rightarrow> Query \<Rightarrow> Query" where
  "parseStartFilter parseDate line q =
     (case dateRegexp ''starts'' line of
        Some (qualifier, dateText) \<Rightarrow>
          let filterDate = parseDate dateText
          in if \<not> isValid filterDate
             then q\<lparr>q_error := Some ''do not understand start date''\<rparr>
             else q\<lparr>q_filters := q_filters q @ [startFilter qualifier filterDate]\<rparr>
      | None \<Rightarrow> q\<lparr>q_error := Some ''do not understand query filter (start date)''\<rparr>)"

text \<open>\<open>parseScheduledFilter\<close> sets the error for an invalid date and goes on.\<close>

definition parseScheduledFilter :: "(string \<Rightarrow> moment) \<Rightarrow> string \<Rightarrow> Query \<Rightarrow> Query" where
  "parseScheduledFilter parseDate line q =
     (case dateRegexp ''scheduled'' line of
        Some (qualifier, dateText) \<Rightarrow>
          let filterDate = parseDate dateText;
              q1 = (if \<not> isValid filterDate
                    then q\<lparr>q_error := Some ''do not understand scheduled date''\<rparr>
                    else q)
          in q1\<lparr>q_filters := q_filters q1 @ [scheduledFilter qualifier filterDate]\<rparr>
      | None \<Rightarrow> q\<lparr>q_error := Some ''do not understand query filter (scheduled date)''\<rparr>)"

definition parseDueFilter :: "(string \<Rightarrow> moment) \<Rightarrow> string \<Rightarrow> Query \<Rightarrow> Query" where
  "parseDueFilter parseDate line q =
     (case dateRegexp ''due'' line of
        Some (qualifier, dateText) \<Rightarrow>
          let filterDate = parseDate dateText
          in if \<not> isValid filterDate
             then q\<lparr>q_error := Some ''do not understand due date''\<rparr>
             else q\<lparr>q_filters := q_filters q @ [dueFilter qualifier filterDate]\<rparr>
      | None \<Rightarrow> q\<lparr>q_error := Some ''do not understand query filter (due date)''\<rparr>)"

definition parseDoneFilter :: "(string \<Rightarrow> moment) \<Rightarrow> string \<Rightarrow> Query \<Rightarrow> Query" where
  "parseDoneFilter parseDate line q =
     (case dateRegexp ''done'' line of
        Some (qualifier, dateText) \<Rightarrow>
          let filterDate = parseDate dateText
          in if \<not> isValid filterDate
             then q\<lparr>q_error := Some ''do not understand done date''\<rparr>
             else q\<lparr>q_filters := q_filters q @ [doneDateFilter qualifier filterDate]\<rparr>
      | None \<Rightarrow> q)"

definition parsePathFilter :: "string \<Rightarrow> Query \<Rightarrow> Query" where
  "parsePathFilter line q =
     (case includesRegexp ''path'' line of
        Some (filterMethod, needle) \<Rightarrow>
          if filterMethod = ''includes''
          then q\<lparr>q_filters := q_filters q @ [pathIncludesFilter needle]\<rparr>
          else if filterMethod = ''does not include''
          then q\<lparr>q_filters := q_filters q @ [pathDoesNotIncludeFilter needle]\<rparr>
          else q\<lparr>q_error := Some ''do not understand query filter (path)''\<rparr>
      | None \<Rightarrow> q\<lparr>q_error := Some ''do not understand query filter (path)''\<rparr>)"

definition parseDescriptionFilter :: "string \<Rightarrow> string \<Rightarrow> Query \<Rightarrow> Query" where
  "parseDescriptionFilter globalFilter line q =
     (case includesRegexp ''description'' line of
        Some (filterMethod, needle) \<Rightarrow>
          if filterMethod = ''includes''
          then q\<lparr>q_filters := q_filters q @ [descriptionIncludesFilter globalFilter needle]\<rparr>
          else if filterMethod = ''does not include''
          then q\<lparr>q_filters := q_filters q
                                 @ [descriptionDoesNotIncludeFilter globalFilter needle]\<rparr>
          else q\<lparr>q_error := Some ''do not understand query filter (description)''\<rparr>
      | None \<Rightarrow> q\<lparr>q_error := Some ''do not understand query filter (description)''\<rparr>)"

definition parseHeadingFilter :: "string \<Rightarrow> Query \<Rightarrow> Query" where
  "parseHeadingFilter line q =
     (case includesRegexp ''heading'' line of
        Some (g1, needle) \<Rightarrow>
          if toLocaleLowerCase g1 = ''includes''
          then q\<lparr>q_filters := q_filters q @ [headingIncludesFilter needle]\<rparr>
          else if g1 = ''does not include''
          then q\<lparr>q_filters := q_filters q @ [headingDoesNotIncludeFilter needle]\<rparr>
          else q\<lparr>q_error := Some ''do not understand query filter (heading)''\<rparr>
      | None \<Rightarrow> q\<lparr>q_error := Some ''do not understand query filter (heading)''\<rparr>)"

definition parseLimit :: "string \<Rightarrow> Query \<Rightarrow> Query" where
  "parseLimit line q =
     (case limitRegexp line of
        Some digits \<Rightarrow> q\<lparr>q_limit := Some (parseInt digits)\<rparr>
      | None \<Rightarrow> q\<lparr>q_error := Some ''do not understand query limit''\<rparr>)"

definition parseSortBy :: "string \<Rightarrow> Query \<Rightarrow> Query" where
  "parseSortBy line q =
     (case sortByRegexp line of
        Some (w, rev_group) \<Rightarrow>
          (case sortingProperty w of
             Some p \<Rightarrow> q\<lparr>q_sorting := q_sorting q
                                          @ [\<lparr>property = p, reverse = (rev_group \<noteq> None)\<rparr>]\<rparr>
           | None \<Rightarrow> q)
      | None \<Rightarrow> q\<lparr>q_error := Some ''do not understand query sorting''\<rparr>)"

text \<open>
  The callback of the constructor's \<open>forEach\<close>: the \<open>switch (true)\<close>, whose cases are
  tried in order, the first true one taken.
\<close>

definition processLine :: "string \<Rightarrow> (string \<Rightarrow> moment) \<Rightarrow> Query \<Rightarrow> string \<Rightarrow> Query" where
  "processLine globalFilter parseDate q line =
     (if line = '''' then q
      else if line = ''done'' then q\<lparr>q_filters := q_filters q @ [doneFilter]\<rparr>
      else if line = ''not done'' then q\<lparr>q_filters := q_filters q @ [notDoneFilter]\<rparr>
      else if line = ''is recurring'' then q\<lparr>q_filters := q_filters q @ [recurringFilter]\<rparr>
      else if line = ''is not recurring''
      then q\<lparr>q_filters := q_filters q @ [notRecurringFilter]\<rparr>
      else if line = ''exclude sub-items''
      then q\<lparr>q_filters := q_filters q @ [excludeSubItemsFilter]\<rparr>
      else if line = ''no start date'' then q\<lparr>q_filters := q_filters q @ [noStartFilter]\<rparr>
      else if line = ''no scheduled date''
      then q\<lparr>q_filters := q_filters q @ [noScheduledFilter]\<rparr>
      else if line = ''no due date'' then q\<lparr>q_filters := q_filters q @ [noDueFilter]\<rparr>
      else if starts_with ''short'' line
      then q\<lparr>q_layoutOptions := (q_layoutOptions q)\<lparr>shortMode := True\<rparr>\<rparr>
      else if priorityRegexp line \<noteq> None then parsePriorityFilter line q
      else if dateRegexp ''happens'' line \<noteq> None then parseHappensFilter parseDate line q
      else if dateRegexp ''starts'' line \<noteq> None then parseStartFilter parseDate line q
      else if dateRegexp ''scheduled'' line \<noteq> None then parseScheduledFilter parseDate line q
      else if dateRegexp ''due'' line \<noteq> None then parseDueFilter parseDate line q
      else if dateRegexp ''done'' line \<noteq> None then parseDoneFilter parseDate line q
      else if includesRegexp ''path'' line \<noteq> None then parsePathFilter line q
      else if includesRegexp ''description'' line \<noteq> None
      then parseDescriptionFilter globalFilter line q
      else if includesRegexp ''heading'' line \<noteq> None then parseHeadingFilter line q
      else if limitRegexp line \<noteq> None then parseLimit line q
      else if sortByRegexp line \<noteq> None then parseSortBy line q
      else if hideOptionsRegexp line \<noteq> None then parseHideOptions line q
      else if starts_with ''#'' line then q
      else q\<lparr>q_error := Some ''do not understand query''\<rparr>)"

text \<open>The constructor: \<open>source.split('\n').map(trim).forEach(...)\<close>.\<close>

definition query_lines :: "string \<Rightarrow> string list" where
  "query_lines source = map trim (split_nl source)"

definition Query_of :: "string \<Rightarrow> (string \<Rightarrow> moment) \<Rightarrow> string \<Rightarrow> Query" where
  "Query_of globalFilter parseDate source =
     foldl (processLine globalFilter parseDate) new_Query (query_lines source)"

section \<open>Cache: the lifecycle\<close>

text \<open>
  The fields of Cache that the constructor, the \<open>resolved\<close> handler and \<open>loadVault\<close>
  touch, and the mutex as far as \<open>loadVault\<close> uses it: \<open>loadVault()\<close> hands its body to
  \<open>tasksMutex.runExclusive\<close>, where it waits (\<open>pendingLoads\<close>) until the mutex is free;
  the body sets \<open>state = Initializing\<close>, awaits the indexing of every document
  (\<open>loadRunning\<close>), and sets \<open>state = Warm\<close>. No other code writes \<open>state\<close> or
  \<open>loadedAfterFirstResolve\<close>.
\<close>

record Lifecycle =
  lc_state :: State
  loadedAfterFirstResolve :: bool
  pendingLoads :: nat
  loadRunning :: bool

definition loadVault :: "Lifecycle \<Rightarrow> Lifecycle" where
  "loadVault l = l\<lparr>pendingLoads := pendingLoads l + 1\<rparr>"


definition resolved_handler :: "Lifecycle \<Rightarrow> Lifecycle" where
  "resolved_handler l =
     (if \<not> loadedAfterFirstResolve l then loadVault (l\<lparr>loadedAfterFirstResolve := True\<rparr>)
      else l)"

text \<open>
  What can happen to a constructed Cache: a \<open>resolved\<close> notification arrives; a waiting
  \<open>loadVault\<close> body gets the mutex and begins; the running body ends; or anything else
  happens (another handler, another holder of the mutex), which leaves these fields alone.
  A begin or end that cannot happen in the current state changes nothing.
\<close>

datatype event = Resolved | LoadBegins | LoadEnds | Other

definition loadCanBegin :: "Lifecycle \<Rightarrow> bool" where
  "loadCanBegin l = (pendingLoads l > 0 \<and> \<not> loadRunning l)"

fun step :: "event \<Rightarrow> Lifecycle \<Rightarrow> Lifecycle" where
  "step Resolved l = resolved_handler l"
| "step LoadBegins l =
     (if loadCanBegin l
      then l\<lparr>pendingLoads := pendingLoads l - 1, loadRunning := True,
             lc_state := Initializing\<rparr>
      else l)"
| "step LoadEnds l = (if loadRunning l then l\<lparr>loadRunning := False, lc_state := Warm\<rparr> else l)"
| "step Other l = l"

definition run :: "Lifecycle \<Rightarrow> event list \<Rightarrow> Lifecycle" where
  "run l es = foldl (\<lambda>l' e. step e l') l es"




section \<open>The words of the specification\<close>

text \<open>The ranking of priorities the specification names: High > Medium > Low > None.\<close>

fun rank :: "Priority \<Rightarrow> nat" where
  "rank High = 3"
| "rank Medium = 2"
| "rank Low = 1"
| "rank NoPriority = 0"

definition outranks :: "Priority \<Rightarrow> Priority \<Rightarrow> bool" where
  "outranks a b = (rank a > rank b)"

text \<open>The query line \<open>priority (is)? (above|below)? (low|none|medium|high)\<close>.\<close>

fun priority_word :: "Priority \<Rightarrow> string" where
  "priority_word High = ''high''"
| "priority_word Medium = ''medium''"
| "priority_word Low = ''low''"
| "priority_word NoPriority = ''none''"

definition priority_line :: "bool \<Rightarrow> string \<Rightarrow> Priority \<Rightarrow> string" where
  "priority_line with_is qualifier p =
     ''priority '' @ (if with_is then ''is '' else '''') @ qualifier @ priority_word p"

text \<open>"Compares as specified": before, after, or on the parsed date (\<open>on\<close> also when the
  line has no qualifier).\<close>

definition compares :: "string option \<Rightarrow> moment \<Rightarrow> moment \<Rightarrow> bool" where
  "compares qualifier d filterDate =
     (if qualifier = Some ''before'' then isBefore d filterDate
      else if qualifier = Some ''after'' then isAfter d filterDate
      else isSame d filterDate)"

text \<open>
  What the four date filters decide, in the words of the specification as amended:
  for \<open>starts\<close> some task lacks a start date or has one that compares; for \<open>scheduled\<close> and
  \<open>due\<close> some task has that date and it compares; for \<open>happens\<close> some task has a start,
  scheduled or due date that compares.
\<close>

definition has_comparing :: "string option \<Rightarrow> moment \<Rightarrow> moment option \<Rightarrow> bool" where
  "has_comparing qualifier filterDate date =
     (case date of None \<Rightarrow> False | Some d \<Rightarrow> compares qualifier d filterDate)"

definition date_filter_spec :: "string \<Rightarrow> string option \<Rightarrow> moment \<Rightarrow> TaskBlock \<Rightarrow> bool" where
  "date_filter_spec keyword qualifier filterDate tb =
     (if keyword = ''starts''
      then (\<exists>task \<in> set (tasks tb).
              startDate task = None \<or> has_comparing qualifier filterDate (startDate task))
      else if keyword = ''scheduled''
      then (\<exists>task \<in> set (tasks tb). has_comparing qualifier filterDate (scheduledDate task))
      else if keyword = ''due''
      then (\<exists>task \<in> set (tasks tb). has_comparing qualifier filterDate (dueDate task))
      else (\<exists>task \<in> set (tasks tb).
              has_comparing qualifier filterDate (startDate task)
              \<or> has_comparing qualifier filterDate (scheduledDate task)
              \<or> has_comparing qualifier filterDate (dueDate task)))"




text \<open>
  A Query as the constructor may leave it after more lines: an error that was recorded
  is still recorded (possibly another one), and every filter is still in the list.
\<close>

definition extends :: "Query \<Rightarrow> Query \<Rightarrow> bool" where
  "extends q q' =
     ((q_error q = None \<or> q_error q' \<noteq> None) \<and> set (q_filters q) \<subseteq> set (q_filters q'))"



section \<open>Properties\<close>

lemma rename_block_same: "rename_block filePath oldPath taskBlock = taskBlock"
  by (simp add: rename_block_def Let_def)

text \<open>
  C1 (the code at the failing input). The index holds one block with one task of
  document \<open>a.md\<close>; the document is renamed to \<open>b.md\<close>. The rename handler leaves the
  task's path at \<open>a.md\<close>: the rewritten block is built and dropped.
\<close>

theorem rename_handler_keeps_old_path:
  "map (\<lambda>tb. map path (tasks tb))
     (taskblocks (rename_handler (TFile ''b.md'') ''a.md''
        \<lparr>state = Warm, taskblocks = [\<lparr>tasks = [plain_task ''a.md'' ''task A'']\<rparr>],
         published = []\<rparr>))
   = [[''a.md'']]"
  by (simp add: notifySubscribers_def rename_block_def plain_task_def Let_def)

lemma keepBlock_iff: "keepBlock p tb \<longleftrightarrow> tasks tb \<noteq> [] \<and> path (hd (tasks tb)) \<noteq> p"
  by (cases "tasks tb") (simp_all add: keepBlock_def)

text \<open>
  C4 (counterexample). The index holds one empty block. After the delete handler for
  \<open>a.md\<close>, and after \<open>indexFile\<close> of a document \<open>a.md\<close> without list items, the index
  is empty: the empty block was removed.
\<close>

theorem empty_block_removed_counterexample:
  "taskblocks (delete_handler (TFile ''a.md'')
      \<lparr>state = Warm, taskblocks = [\<lparr>tasks = []\<rparr>], published = []\<rparr>) = []
   \<and> taskblocks (fst (indexFile (\<lambda>a. Inr None) ''a.md''
        (Some \<lparr>listItems = None, sections = None\<rparr>) ''''
        \<lparr>state = Warm, taskblocks = [\<lparr>tasks = []\<rparr>], published = []\<rparr>)) = []"
  by (simp add: notifySubscribers_def keepBlock_def indexFile_def indexFile_remove_def
      initial_scan_def Let_def)

text \<open>
  C4 (as amended). The path comparison of the delete handler and of the removal step of
  \<open>indexFile\<close> keeps, in their order, exactly the non-empty blocks whose first task's
  path differs from the document's path: an empty block is always removed, whatever the
  path, and no empty block is left in the result.
\<close>

theorem removal_drops_empty_blocks:
  "taskblocks (delete_handler (TFile p) c)
     = filter (\<lambda>tb. tasks tb \<noteq> [] \<and> path (hd (tasks tb)) \<noteq> p) (taskblocks c)
   \<and> indexFile_remove p (taskblocks c)
     = filter (\<lambda>tb. tasks tb \<noteq> [] \<and> path (hd (tasks tb)) \<noteq> p) (taskblocks c)
   \<and> list_all (\<lambda>tb. tasks tb \<noteq> []) (taskblocks (delete_handler (TFile p) c))
   \<and> list_all (\<lambda>tb. tasks tb \<noteq> []) (indexFile_remove p (taskblocks c))"
proof -
  have same: "filter (keepBlock p) xs
      = filter (\<lambda>tb. tasks tb \<noteq> [] \<and> path (hd (tasks tb)) \<noteq> p) xs" for xs
    by (rule filter_cong) (simp_all add: keepBlock_iff)
  show ?thesis
    by (simp add: notifySubscribers_def indexFile_remove_def same list_all_iff)
qed

text \<open>
  C9 (the code at the failing input). The document is \<open>- [ ] task A\<close> followed by the
  plain list item \<open>- plain item\<close>, both in one list section, and the checklist item
  parses into a Task. The block holding task A is pushed only when a later checklist
  item starts a new block or when the last list item overall is a parsed task; here the
  last list item is not a checklist item, so the block is never stored and the index
  stays empty.
\<close>

theorem indexFile_drops_block_before_plain_item:
  "taskblocks (fst (indexFile (\<lambda>a. Inr (Some (mk a))) ''a.md''
      (Some \<lparr>listItems = Some
                 [\<lparr>li_task = Some '' '', li_parent = -1,
                   li_position = \<lparr>start_line = 0, end_line = 0\<rparr>\<rparr>,
                  \<lparr>li_task = None, li_parent = -1,
                   li_position = \<lparr>start_line = 1, end_line = 1\<rparr>\<rparr>],
             sections = Some
                 [\<lparr>sec_type = ''list'',
                   sec_position = \<lparr>start_line = 0, end_line = 1\<rparr>\<rparr>]\<rparr>)
      ''- [ ] task A\<newline>- plain item''
      \<lparr>state = Warm, taskblocks = [], published = []\<rparr>)) = []"
  by (simp add: indexFile_def indexFile_remove_def initial_scan_def indexFile_item_def
      getSection_def getPrecedingHeader_def js_index_def notifySubscribers_def Let_def)

lemma js_index_minus_one: "js_index xs (-1) = None"
  by (simp add: js_index_def)

text \<open>
  C3 (the code on every input, the failing inputs included). \<open>compareByDoneDate\<close> reads
  \<open>a_sorted[-1]\<close> and \<open>b_sorted[-1]\<close>, which are \<open>undefined\<close> for every array, and then
  their \<open>doneDate\<close>: for every pair of blocks the comparator raises a TypeError instead
  of ordering them by their latest done date.
\<close>

theorem compareByDoneDate_raises: "compareByDoneDate a b = Inl TypeError"
  by (simp add: compareByDoneDate_def both_at_def js_index_minus_one Let_def)

text \<open>
  C6 (the code at the failing inputs). The filter compiled from the query line
  \<open>path does not include x\<close> raises a TypeError on a TaskBlock without tasks (its sibling
  for \<open>path includes\<close> tests the length first), and so does \<open>compareByPriority\<close> on
  blocks without tasks.
\<close>

theorem filters_and_comparators_raise:
  "map (\<lambda>f. f \<lparr>tasks = []\<rparr>)
       (q_filters (Query_of '''' (\<lambda>s. InvalidMoment) ''path does not include x''))
     = [Inl TypeError]
   \<and> compareByPriority \<lparr>tasks = []\<rparr> \<lparr>tasks = []\<rparr> = Inl TypeError"
  by (simp add: Query_of_def query_lines_def trim_def is_space_def processLine_def
      starts_with_def priorityRegexp_def dateRegexp_def includesRegexp_def
      parsePathFilter_def new_Query_def dot_star_def pathDoesNotIncludeFilter_def
      on_first_task_def js_index_def compareByPriority_def both_at_def js_sort_def Let_def)


















lemma run_snoc: "run l (es @ [e]) = step e (run l es)"
  by (simp add: run_def)











lemmas query_eval =
  Query_of_def query_lines_def trim_def is_space_def processLine_def starts_with_def
  priorityRegexp_def qualifiedPriorityWord_def spacePriorityWord_def priorityWord_def
  parsePriorityFilter_def new_Query_def priority_line_def Let_def

lemma priority_line_above:
  "q_filters (Query_of gf pd (priority_line with_is ''above '' p))
     = [priorityFilter (Some ''above'') p]"
  by (cases with_is; cases p) (simp_all add: query_eval)

lemma priority_line_below:
  "q_filters (Query_of gf pd (priority_line with_is ''below '' p))
     = [priorityFilter (Some ''below'') p]"
  by (cases with_is; cases p) (simp_all add: query_eval)

lemma priority_line_plain:
  "q_filters (Query_of gf pd (priority_line with_is '''' p)) = [priorityFilter None p]"
  by (cases with_is; cases p) (simp_all add: query_eval)

lemma priorityBefore_outranks: "priorityBefore p task = outranks (priority task) p"
  by (cases p; cases "priority task")
     (simp_all add: priorityBefore_def outranks_def localeCompare_def)

lemma priority_string_eq: "(priority_string a = priority_string b) = (a = b)"
  by (cases a; cases b) simp_all

text \<open>
  C2 (as amended). For the query line \<open>priority (is)? (above|below)? (low|none|medium|high)\<close>
  and every TaskBlock: with \<open>above\<close> the compiled filter matches iff some task's priority
  outranks the threshold; with \<open>below\<close> iff no task's priority outranks the threshold;
  with neither qualifier iff every task's priority is the threshold or outranks it
  (is higher-ranked); the ranking is High > Medium > Low > None.
\<close>

theorem priority_filter_semantics:
  "map (\<lambda>f. f tb) (q_filters (Query_of gf pd (priority_line with_is ''above '' p)))
     = [Inr (\<exists>task \<in> set (tasks tb). outranks (priority task) p)]
   \<and> map (\<lambda>f. f tb) (q_filters (Query_of gf pd (priority_line with_is ''below '' p)))
     = [Inr (\<not> (\<exists>task \<in> set (tasks tb). outranks (priority task) p))]
   \<and> map (\<lambda>f. f tb) (q_filters (Query_of gf pd (priority_line with_is '''' p)))
     = [Inr (\<forall>task \<in> set (tasks tb). priority task = p \<or> outranks (priority task) p)]"
proof -
  have nonempty: "priority_string x \<noteq> []" for x
    by (cases x) simp_all
  have before: "(localeCompare (priority_string (priority task)) (priority_string p) < 0)
      = outranks (priority task) p" for task :: Task
    using priorityBefore_outranks [of p task] by (simp add: priorityBefore_def nonempty)
  show ?thesis
    by (simp add: priority_line_above priority_line_below priority_line_plain
        priorityFilter_def list_ex_iff list_all_iff priorityBefore_outranks nonempty before
        priority_string_eq)
qed

text \<open>
  C2 (counterexample). The query is \<open>priority high\<close> and the block holds one task of
  priority None. That priority is lower-ranked than the threshold, so the claim has the
  block match; the compiled filter returns false.
\<close>

theorem priority_neither_counterexample:
  "map (\<lambda>f. f \<lparr>tasks = [plain_task ''a.md'' ''t'']\<rparr>)
       (q_filters (Query_of '''' (\<lambda>s. InvalidMoment) ''priority high''))
     = [Inr False]
   \<and> priority (plain_task ''a.md'' ''t'') = NoPriority
   \<and> outranks High NoPriority"
proof -
  have "map (\<lambda>f. f \<lparr>tasks = [plain_task ''a.md'' ''t'']\<rparr>)
       (q_filters (Query_of '''' (\<lambda>s. InvalidMoment) (priority_line False '''' High)))
     = [Inr False]"
    by (simp add: priority_line_plain priorityFilter_def plain_task_def localeCompare_def)
  then show ?thesis
    by (simp add: priority_line_def plain_task_def outranks_def)
qed

theorem priority_filter_semantics_witness:
  "map (\<lambda>f. f \<lparr>tasks = [plain_task ''a.md'' ''t'']\<rparr>)
       (q_filters (Query_of '''' (\<lambda>s. InvalidMoment) ''priority is above none'')) = [Inr False]
   \<and> map (\<lambda>f. f \<lparr>tasks = [plain_task ''a.md'' ''t'']\<rparr>)
       (q_filters (Query_of '''' (\<lambda>s. InvalidMoment) ''priority is below none'')) = [Inr True]
   \<and> map (\<lambda>f. f \<lparr>tasks = [plain_task ''a.md'' ''t'']\<rparr>)
       (q_filters (Query_of '''' (\<lambda>s. InvalidMoment) ''priority is none'')) = [Inr True]"
  using priority_filter_semantics
    [of "\<lparr>tasks = [plain_task ''a.md'' ''t'']\<rparr>" "''''" "\<lambda>s. InvalidMoment" True NoPriority]
  by (simp add: priority_line_def plain_task_def outranks_def)


lemma starts_with_append: "starts_with p s \<Longrightarrow> s = p @ drop (length p) s"
  by (metis append_take_drop_id starts_with_def)

lemma dateRegexp_prefix: "dateRegexp keyword line = Some m \<Longrightarrow> \<exists>r. line = keyword @ '' '' @ r"
proof -
  assume "dateRegexp keyword line = Some m"
  then have "starts_with (keyword @ '' '') line"
    by (simp add: dateRegexp_def split: if_splits)
  then have "line = (keyword @ '' '') @ drop (length (keyword @ '' '')) line"
    by (rule starts_with_append)
  then show ?thesis by auto
qed

lemma dateRegexp_other:
  "hd keyword \<noteq> hd other \<Longrightarrow> keyword \<noteq> [] \<Longrightarrow> other \<noteq> []
   \<Longrightarrow> dateRegexp other (keyword @ '' '' @ r) = None"
  by (cases keyword; cases other) (simp_all add: dateRegexp_def starts_with_def)

lemma dispatch_happens:
  assumes "dateRegexp ''happens'' line = Some m"
  shows "processLine gf pd q line = parseHappensFilter pd line q"
proof -
  obtain r where l: "line = ''happens'' @ '' '' @ r"
    using dateRegexp_prefix [OF assms] by blast
  show ?thesis
    using assms unfolding l
    by (simp add: processLine_def starts_with_def priorityRegexp_def)
qed

lemma dispatch_starts:
  assumes "dateRegexp ''starts'' line = Some m"
  shows "processLine gf pd q line = parseStartFilter pd line q"
proof -
  obtain r where l: "line = ''starts'' @ '' '' @ r"
    using dateRegexp_prefix [OF assms] by blast
  have other: "dateRegexp ''happens'' (''starts'' @ '' '' @ r) = None"
    by (rule dateRegexp_other) simp_all
  show ?thesis
    using assms other unfolding l
    by (simp add: processLine_def starts_with_def priorityRegexp_def)
qed

lemma dispatch_scheduled:
  assumes "dateRegexp ''scheduled'' line = Some m"
  shows "processLine gf pd q line = parseScheduledFilter pd line q"
proof -
  obtain r where l: "line = ''scheduled'' @ '' '' @ r"
    using dateRegexp_prefix [OF assms] by blast
  have other: "dateRegexp ''happens'' (''scheduled'' @ '' '' @ r) = None"
    by (rule dateRegexp_other) simp_all
  have other2: "dateRegexp ''starts'' (''scheduled'' @ '' '' @ r) = None"
    by (simp add: dateRegexp_def starts_with_def)
  show ?thesis
    using assms other other2 unfolding l
    by (simp add: processLine_def starts_with_def priorityRegexp_def)
qed

lemma dispatch_due:
  assumes "dateRegexp ''due'' line = Some m"
  shows "processLine gf pd q line = parseDueFilter pd line q"
proof -
  obtain r where l: "line = ''due'' @ '' '' @ r"
    using dateRegexp_prefix [OF assms] by blast
  have other: "dateRegexp ''happens'' (''due'' @ '' '' @ r) = None"
    "dateRegexp ''starts'' (''due'' @ '' '' @ r) = None"
    "dateRegexp ''scheduled'' (''due'' @ '' '' @ r) = None"
    by (rule dateRegexp_other; simp)+
  show ?thesis
    using assms other unfolding l
    by (simp add: processLine_def starts_with_def priorityRegexp_def)
qed

lemma dispatch_done:
  assumes "dateRegexp ''done'' line = Some m"
  shows "processLine gf pd q line = parseDoneFilter pd line q"
proof -
  obtain r where l: "line = ''done'' @ '' '' @ r"
    using dateRegexp_prefix [OF assms] by blast
  have other: "dateRegexp ''happens'' (''done'' @ '' '' @ r) = None"
    "dateRegexp ''starts'' (''done'' @ '' '' @ r) = None"
    "dateRegexp ''scheduled'' (''done'' @ '' '' @ r) = None"
    by (rule dateRegexp_other; simp)+
  have other2: "dateRegexp ''due'' (''done'' @ '' '' @ r) = None"
    by (simp add: dateRegexp_def starts_with_def)
  show ?thesis
    using assms other other2 unfolding l
    by (simp add: processLine_def starts_with_def priorityRegexp_def)
qed


lemma startFilter_spec:
  "startFilter qualifier fd tb = Inr (date_filter_spec ''starts'' qualifier fd tb)"
  by (auto simp: startFilter_def date_filter_spec_def has_comparing_def compares_def
      list_ex_iff split: option.splits)

lemma scheduledFilter_spec:
  "scheduledFilter qualifier fd tb = Inr (date_filter_spec ''scheduled'' qualifier fd tb)"
  by (auto simp: scheduledFilter_def date_filter_spec_def has_comparing_def compares_def
      list_ex_iff split: option.splits)

lemma dueFilter_spec:
  "dueFilter qualifier fd tb = Inr (date_filter_spec ''due'' qualifier fd tb)"
  by (auto simp: dueFilter_def date_filter_spec_def has_comparing_def compares_def
      list_ex_iff split: option.splits)

lemma happens_ex:
  "list_ex (\<lambda>date. case date of None \<Rightarrow> False | Some d \<Rightarrow> P d) (happensDates tb)
   = (\<exists>task \<in> set (tasks tb).
        (case startDate task of None \<Rightarrow> False | Some d \<Rightarrow> P d)
        \<or> (case scheduledDate task of None \<Rightarrow> False | Some d \<Rightarrow> P d)
        \<or> (case dueDate task of None \<Rightarrow> False | Some d \<Rightarrow> P d))"
  by (auto simp: happensDates_def list_ex_iff)

lemma happensFilter_spec:
  "happensFilter qualifier fd tb = Inr (date_filter_spec ''happens'' qualifier fd tb)"
  by (simp add: happensFilter_def happens_ex date_filter_spec_def has_comparing_def
      compares_def cong: option.case_cong)

text \<open>
  C8 (as amended). For a query line that matches the expression of \<open>starts\<close>,
  \<open>scheduled\<close>, \<open>due\<close> or \<open>happens\<close> and whose date text parses, the constructor appends
  one filter, and a block matches iff some task's respective date compares as specified
  against the parsed date, where a task lacking the date counts as matching for \<open>starts\<close>
  only: for \<open>scheduled\<close>, \<open>due\<close> and \<open>happens\<close> a missing date contributes no match
  (\<open>happens\<close> looks at the start, scheduled and due dates that are present).
\<close>

theorem date_filters_semantics:
  assumes "keyword \<in> {''starts'', ''scheduled'', ''due'', ''happens''}"
    and "dateRegexp keyword line = Some (qualifier, dateText)"
    and "isValid (parseDate dateText)"
  shows "\<exists>f. processLine globalFilter parseDate q line = q\<lparr>q_filters := q_filters q @ [f]\<rparr>
             \<and> (\<forall>tb. f tb = Inr (date_filter_spec keyword qualifier (parseDate dateText) tb))"
proof -
  consider "keyword = ''starts''" | "keyword = ''scheduled''" | "keyword = ''due''"
    | "keyword = ''happens''"
    using assms(1) by blast
  then show ?thesis
  proof cases
    case 1
    with assms have "processLine globalFilter parseDate q line
        = q\<lparr>q_filters := q_filters q @ [startFilter qualifier (parseDate dateText)]\<rparr>"
      by (simp add: dispatch_starts parseStartFilter_def)
    with 1 show ?thesis by (auto simp: startFilter_spec)
  next
    case 2
    with assms have "processLine globalFilter parseDate q line
        = q\<lparr>q_filters := q_filters q @ [scheduledFilter qualifier (parseDate dateText)]\<rparr>"
      by (simp add: dispatch_scheduled parseScheduledFilter_def)
    with 2 show ?thesis by (auto simp: scheduledFilter_spec)
  next
    case 3
    with assms have "processLine globalFilter parseDate q line
        = q\<lparr>q_filters := q_filters q @ [dueFilter qualifier (parseDate dateText)]\<rparr>"
      by (simp add: dispatch_due parseDueFilter_def)
    with 3 show ?thesis by (auto simp: dueFilter_spec)
  next
    case 4
    with assms have "processLine globalFilter parseDate q line
        = q\<lparr>q_filters := q_filters q @ [happensFilter qualifier (parseDate dateText)]\<rparr>"
      by (simp add: dispatch_happens parseHappensFilter_def)
    with 4 show ?thesis by (auto simp: happensFilter_spec)
  qed
qed

lemma starts_example:
  "dateRegexp ''starts'' ''starts before tomorrow'' = Some (Some ''before'', ''tomorrow'')"
  by (simp add: dateRegexp_def starts_with_def dot_star_def)

theorem date_filters_semantics_witness:
  "''starts'' \<in> {''starts'', ''scheduled'', ''due'', ''happens''}
   \<and> dateRegexp ''starts'' ''starts before tomorrow'' = Some (Some ''before'', ''tomorrow'')
   \<and> isValid (Moment 100)
   \<and> (\<exists>f. processLine '''' (\<lambda>s. Moment 100) new_Query ''starts before tomorrow''
             = new_Query\<lparr>q_filters := q_filters new_Query @ [f]\<rparr>
           \<and> f \<lparr>tasks = [plain_task ''a.md'' ''t'']\<rparr> = Inr True)"
proof -
  have k: "''starts'' \<in> {''starts'', ''scheduled'', ''due'', ''happens''}" by simp
  have v: "isValid ((\<lambda>s. Moment 100) ''tomorrow'')" by simp
  obtain f where f: "processLine '''' (\<lambda>s. Moment 100) new_Query ''starts before tomorrow''
             = new_Query\<lparr>q_filters := q_filters new_Query @ [f]\<rparr>"
      "\<forall>tb. f tb = Inr (date_filter_spec ''starts'' (Some ''before'') (Moment 100) tb)"
    using date_filters_semantics [OF k starts_example v, of "''''" new_Query] by auto
  have "f \<lparr>tasks = [plain_task ''a.md'' ''t'']\<rparr> = Inr True"
    by (simp add: f(2) date_filter_spec_def plain_task_def)
  with f(1) starts_example show ?thesis by auto
qed

text \<open>
  C8 (counterexample). A block whose only task has no start, scheduled or due date does
  not match \<open>happens before\<close>, \<open>happens after\<close> or \<open>happens on\<close> a date: for \<open>happens\<close>
  a missing date does not count as matching.
\<close>

theorem happens_missing_date_counterexample:
  "map (\<lambda>f. f \<lparr>tasks = [plain_task ''a.md'' ''t'']\<rparr>)
       (q_filters (Query_of '''' (\<lambda>s. Moment 100)
          ''happens before tomorrow\<newline>happens after tomorrow\<newline>happens on tomorrow''))
     = [Inr False, Inr False, Inr False]
   \<and> startDate (plain_task ''a.md'' ''t'') = None
   \<and> scheduledDate (plain_task ''a.md'' ''t'') = None
   \<and> dueDate (plain_task ''a.md'' ''t'') = None"
  by (simp add: Query_of_def query_lines_def trim_def is_space_def processLine_def
      starts_with_def priorityRegexp_def dateRegexp_def parseHappensFilter_def new_Query_def
      dot_star_def happensFilter_def happensDates_def plain_task_def Let_def)


lemma extends_refl: "extends q q"
  by (auto simp: extends_def)

lemma extends_trans: "extends a b \<Longrightarrow> extends b c \<Longrightarrow> extends a c"
  by (auto simp: extends_def)

lemma extends_error: "extends q (q\<lparr>q_error := Some m\<rparr>)"
  by (auto simp: extends_def)

lemma extends_filter: "extends q (q\<lparr>q_filters := q_filters q @ fs\<rparr>)"
  by (auto simp: extends_def)

lemma extends_layout: "extends q (q\<lparr>q_layoutOptions := lo\<rparr>)"
  by (auto simp: extends_def)

lemma extends_limit: "extends q (q\<lparr>q_limit := n\<rparr>)"
  by (auto simp: extends_def)

lemma extends_sorting: "extends q (q\<lparr>q_sorting := ss\<rparr>)"
  by (auto simp: extends_def)

lemmas extends_simps =
  extends_refl extends_error extends_filter extends_layout extends_limit extends_sorting

lemma extends_parseHideOptions: "extends q (parseHideOptions line q)"
  by (simp add: parseHideOptions_def Let_def extends_simps split: option.splits)

lemma extends_parsePriorityFilter: "extends q (parsePriorityFilter line q)"
  by (simp add: parsePriorityFilter_def Let_def extends_simps split: option.splits prod.splits)

lemma extends_parseHappensFilter: "extends q (parseHappensFilter pd line q)"
  by (simp add: parseHappensFilter_def Let_def extends_simps split: option.splits prod.splits)

lemma extends_parseStartFilter: "extends q (parseStartFilter pd line q)"
  by (simp add: parseStartFilter_def Let_def extends_simps split: option.splits prod.splits)

lemma extends_parseScheduledFilter: "extends q (parseScheduledFilter pd line q)"
  by (auto simp: parseScheduledFilter_def Let_def extends_def split: option.splits prod.splits)

lemma extends_parseDueFilter: "extends q (parseDueFilter pd line q)"
  by (simp add: parseDueFilter_def Let_def extends_simps split: option.splits prod.splits)

lemma extends_parseDoneFilter: "extends q (parseDoneFilter pd line q)"
  by (simp add: parseDoneFilter_def Let_def extends_simps split: option.splits prod.splits)

lemma extends_parsePathFilter: "extends q (parsePathFilter line q)"
  by (simp add: parsePathFilter_def extends_simps split: option.splits prod.splits)

lemma extends_parseDescriptionFilter: "extends q (parseDescriptionFilter gf line q)"
  by (simp add: parseDescriptionFilter_def extends_simps split: option.splits prod.splits)

lemma extends_parseHeadingFilter: "extends q (parseHeadingFilter line q)"
  by (simp add: parseHeadingFilter_def extends_simps split: option.splits prod.splits)

lemma extends_parseLimit: "extends q (parseLimit line q)"
  by (simp add: parseLimit_def extends_simps split: option.splits)

lemma extends_parseSortBy: "extends q (parseSortBy line q)"
  by (simp add: parseSortBy_def extends_simps split: option.splits prod.splits)

lemma extends_processLine: "extends q (processLine gf pd q line)"
  unfolding processLine_def
  by (simp add: extends_simps extends_parseHideOptions extends_parsePriorityFilter
      extends_parseHappensFilter extends_parseStartFilter extends_parseScheduledFilter
      extends_parseDueFilter extends_parseDoneFilter extends_parsePathFilter
      extends_parseDescriptionFilter extends_parseHeadingFilter extends_parseLimit
      extends_parseSortBy)

lemma extends_foldl: "extends q (foldl (processLine gf pd) q ls)"
proof (induction ls arbitrary: q)
  case Nil
  show ?case by (simp add: extends_refl)
next
  case (Cons l ls)
  have "extends q (processLine gf pd q l)" by (rule extends_processLine)
  moreover have "extends (processLine gf pd q l) (foldl (processLine gf pd) (processLine gf pd q l) ls)"
    by (rule Cons.IH)
  ultimately show ?case
    by (simp add: extends_trans)
qed

lemma scheduled_invalid_line:
  assumes "dateRegexp ''scheduled'' line = Some (qualifier, dateText)"
    and "\<not> isValid (parseDate dateText)"
  shows "processLine gf parseDate q line
     = q\<lparr>q_error := Some ''do not understand scheduled date'',
         q_filters := q_filters q @ [scheduledFilter qualifier (parseDate dateText)]\<rparr>"
  using assms by (simp add: dispatch_scheduled parseScheduledFilter_def)

lemma scheduled_invalid_query:
  assumes "line \<in> set (query_lines source)"
    and "dateRegexp ''scheduled'' line = Some (qualifier, dateText)"
    and "\<not> isValid (parseDate dateText)"
  shows "q_error (Query_of gf parseDate source) \<noteq> None
     \<and> scheduledFilter qualifier (parseDate dateText)
         \<in> set (q_filters (Query_of gf parseDate source))"
proof -
  obtain pre post where split: "query_lines source = pre @ line # post"
    using assms(1) by (meson split_list)
  define q0 where "q0 = foldl (processLine gf parseDate) new_Query pre"
  define q1 where "q1 = processLine gf parseDate q0 line"
  have final: "Query_of gf parseDate source = foldl (processLine gf parseDate) q1 post"
    by (simp add: Query_of_def split q0_def q1_def)
  have "q1 = q0\<lparr>q_error := Some ''do not understand scheduled date'',
         q_filters := q_filters q0 @ [scheduledFilter qualifier (parseDate dateText)]\<rparr>"
    unfolding q1_def using assms(2,3) by (rule scheduled_invalid_line)
  then have here: "q_error q1 \<noteq> None"
      "scheduledFilter qualifier (parseDate dateText) \<in> set (q_filters q1)"
    by simp_all
  have "extends q1 (Query_of gf parseDate source)"
    unfolding final by (rule extends_foldl)
  with here show ?thesis
    by (auto simp: extends_def)
qed

text \<open>
  C10. For a line that matches the expression of a date filter and whose date text does
  not parse: when the keyword is \<open>scheduled\<close>, the constructor records the error
  "do not understand scheduled date" and still appends the scheduled filter built from
  the invalid date, and in the Query of every text containing that line the error is
  set and the filter is in the filter list; when the keyword is \<open>starts\<close>, \<open>due\<close>,
  \<open>done\<close> or \<open>happens\<close>, the constructor records an error and appends no filter.
\<close>

theorem scheduled_invalid_date_still_filters:
  assumes "dateRegexp keyword line = Some (qualifier, dateText)"
    and "\<not> isValid (parseDate dateText)"
  shows "(keyword = ''scheduled'' \<longrightarrow>
            processLine gf parseDate q line
              = q\<lparr>q_error := Some ''do not understand scheduled date'',
                  q_filters := q_filters q @ [scheduledFilter qualifier (parseDate dateText)]\<rparr>
            \<and> (line \<in> set (query_lines source) \<longrightarrow>
                 q_error (Query_of gf parseDate source) \<noteq> None
                 \<and> scheduledFilter qualifier (parseDate dateText)
                     \<in> set (q_filters (Query_of gf parseDate source))))
       \<and> (keyword \<in> {''starts'', ''due'', ''done'', ''happens''} \<longrightarrow>
            (\<exists>message. processLine gf parseDate q line = q\<lparr>q_error := Some message\<rparr>))"
proof (intro conjI impI)
  assume k: "keyword = ''scheduled''"
  show "processLine gf parseDate q line
      = q\<lparr>q_error := Some ''do not understand scheduled date'',
          q_filters := q_filters q @ [scheduledFilter qualifier (parseDate dateText)]\<rparr>"
    using assms k by (simp add: scheduled_invalid_line)
next
  assume k: "keyword = ''scheduled''" and l: "line \<in> set (query_lines source)"
  from scheduled_invalid_query [OF l] assms k
  show "q_error (Query_of gf parseDate source) \<noteq> None" by simp
next
  assume k: "keyword = ''scheduled''" and l: "line \<in> set (query_lines source)"
  from scheduled_invalid_query [OF l] assms k
  show "scheduledFilter qualifier (parseDate dateText)
      \<in> set (q_filters (Query_of gf parseDate source))" by simp
next
  assume "keyword \<in> {''starts'', ''due'', ''done'', ''happens''}"
  then consider "keyword = ''starts''" | "keyword = ''due''" | "keyword = ''done''"
    | "keyword = ''happens''" by blast
  then show "\<exists>message. processLine gf parseDate q line = q\<lparr>q_error := Some message\<rparr>"
  proof cases
    case 1
    with assms show ?thesis by (auto simp: dispatch_starts parseStartFilter_def)
  next
    case 2
    with assms show ?thesis by (auto simp: dispatch_due parseDueFilter_def)
  next
    case 3
    with assms show ?thesis by (auto simp: dispatch_done parseDoneFilter_def)
  next
    case 4
    with assms show ?thesis by (auto simp: dispatch_happens parseHappensFilter_def)
  qed
qed

lemma scheduled_example:
  "dateRegexp ''scheduled'' ''scheduled before foo'' = Some (Some ''before'', ''foo'')"
  by (simp add: dateRegexp_def starts_with_def dot_star_def)

lemma starts_example2:
  "dateRegexp ''starts'' ''starts before foo'' = Some (Some ''before'', ''foo'')"
  by (simp add: dateRegexp_def starts_with_def dot_star_def)

lemma example_lines:
  "query_lines ''not done\<newline>  scheduled before foo '' = [''not done'', ''scheduled before foo'']"
  by (simp add: query_lines_def trim_def is_space_def)

theorem scheduled_invalid_date_still_filters_witness:
  "dateRegexp ''scheduled'' ''scheduled before foo'' = Some (Some ''before'', ''foo'')
   \<and> \<not> isValid InvalidMoment
   \<and> processLine '''' (\<lambda>s. InvalidMoment) new_Query ''scheduled before foo''
       = new_Query\<lparr>q_error := Some ''do not understand scheduled date'',
                   q_filters := [scheduledFilter (Some ''before'') InvalidMoment]\<rparr>
   \<and> ''scheduled before foo'' \<in> set (query_lines ''not done\<newline>  scheduled before foo '')
   \<and> q_error (Query_of '''' (\<lambda>s. InvalidMoment) ''not done\<newline>  scheduled before foo '') \<noteq> None
   \<and> scheduledFilter (Some ''before'') InvalidMoment
       \<in> set (q_filters (Query_of '''' (\<lambda>s. InvalidMoment)
                 ''not done\<newline>  scheduled before foo ''))
   \<and> dateRegexp ''starts'' ''starts before foo'' = Some (Some ''before'', ''foo'')
   \<and> (\<exists>message. processLine '''' (\<lambda>s. InvalidMoment) new_Query ''starts before foo''
         = new_Query\<lparr>q_error := Some message\<rparr>)"
proof -
  have inv: "\<not> isValid ((\<lambda>s. InvalidMoment) ''foo'')" by simp
  have mem: "''scheduled before foo'' \<in> set (query_lines ''not done\<newline>  scheduled before foo '')"
    by (simp add: example_lines)
  note a = scheduled_invalid_date_still_filters [OF scheduled_example inv,
      of "''''" new_Query "''not done\<newline>  scheduled before foo ''"]
  note b = scheduled_invalid_date_still_filters [OF starts_example2 inv, of "''''" new_Query]
  from a b mem show ?thesis
    by (simp add: scheduled_example starts_example2 new_Query_def)
qed

text \<open>
  The two grouping scenarios, where the last list item is a checklist item that parses:
  two top-level checklist items in one list section give two blocks of one task each,
  and a parent followed by one child gives one block of two tasks.
\<close>

theorem indexFile_scenarios:
  "map (\<lambda>tb. length (tasks tb))
     (taskblocks (fst (indexFile (\<lambda>a. Inr (Some (mk a))) ''a.md''
        (Some \<lparr>listItems = Some
                   [\<lparr>li_task = Some '' '', li_parent = -1,
                     li_position = \<lparr>start_line = 0, end_line = 0\<rparr>\<rparr>,
                    \<lparr>li_task = Some '' '', li_parent = -1,
                     li_position = \<lparr>start_line = 1, end_line = 1\<rparr>\<rparr>],
               sections = Some
                   [\<lparr>sec_type = ''list'',
                     sec_position = \<lparr>start_line = 0, end_line = 1\<rparr>\<rparr>]\<rparr>)
        ''- [ ] task A\<newline>- [ ] task B''
        \<lparr>state = Warm, taskblocks = [], published = []\<rparr>))) = [1, 1]
   \<and> map (\<lambda>tb. length (tasks tb))
     (taskblocks (fst (indexFile (\<lambda>a. Inr (Some (mk a))) ''a.md''
        (Some \<lparr>listItems = Some
                   [\<lparr>li_task = Some '' '', li_parent = -1,
                     li_position = \<lparr>start_line = 0, end_line = 0\<rparr>\<rparr>,
                    \<lparr>li_task = Some '' '', li_parent = 0,
                     li_position = \<lparr>start_line = 1, end_line = 1\<rparr>\<rparr>],
               sections = Some
                   [\<lparr>sec_type = ''list'',
                     sec_position = \<lparr>start_line = 0, end_line = 1\<rparr>\<rparr>]\<rparr>)
        ''- [ ] parent\<newline>  - [ ] child''
        \<lparr>state = Warm, taskblocks = [], published = []\<rparr>))) = [2]"
  by (simp add: indexFile_def indexFile_remove_def initial_scan_def indexFile_item_def
      getSection_def getPrecedingHeader_def js_index_def notifySubscribers_def Let_def)

end
